theory Spec2Isabelle
  imports Complex_Main "HOL-Library.Word"
begin

section \<open>JavaScript values\<close>

text \<open>
  This theory embeds \<open>src/index.js\<close>: the origin callback given to the cors
  middleware, the origin check \<open>isOriginAllowed\<close> and the handler of
  \<open>POST /tasks\<close>. Helmet, the JSON body parser (a request here carries the parsed
  body), the start-up configuration check and \<open>GET /health\<close> are outside it.

  The handler works on whatever \<open>bodyParser.json\<close> parsed and on whatever the Octokit
  client resolved with, so the data is modelled as untyped JavaScript values. A string is
  a list of HOL's 8-bit characters; the handler looks at a string only to test it for
  emptiness and equality and to hand it to a codec. An object is the association list of
  its own properties, the first binding of a key being the property.
\<close>

datatype jsval =
    JUndefined
  | JNull
  | JBool bool
  | JNum rat
  | JStr string
  | JArr "jsval list"
  | JObj "(string \<times> jsval) list"

text \<open>A thrown \<open>Error\<close>; the handler only ever reads its \<open>message\<close>.\<close>

datatype js_error = JsError (message: string)

type_synonym bytes = "8 word list"

text \<open>JavaScript truthiness, as used by \<open>!x\<close>, \<open>x && y\<close> and \<open>x || y\<close>.\<close>

fun truthy :: "jsval \<Rightarrow> bool" where
  "truthy JUndefined = False"
| "truthy JNull = False"
| "truthy (JBool b) = b"
| "truthy (JNum n) = (n \<noteq> 0)"
| "truthy (JStr s) = (s \<noteq> [])"
| "truthy (JArr xs) = True"
| "truthy (JObj kvs) = True"

text \<open>
  Property read \<open>v.k\<close> on a value that is neither \<open>undefined\<close> nor \<open>null\<close>. The
  handler reads only the keys \<open>files\<close>, \<open>commitMessage\<close>, \<open>branch\<close>, \<open>path\<close>,
  \<open>content\<close>, \<open>encoding\<close>, \<open>data\<close>, \<open>sha\<close> and \<open>commit\<close>; none of them is a
  property of an array, a string, a number or a boolean, so those yield \<open>undefined\<close>.
\<close>

fun read_prop :: "jsval \<Rightarrow> string \<Rightarrow> jsval" where
  "read_prop (JObj kvs) k = (case map_of kvs k of Some v \<Rightarrow> v | None \<Rightarrow> JUndefined)"
| "read_prop v k = JUndefined"

definition cannot_read :: "string \<Rightarrow> string \<Rightarrow> js_error" where
  "cannot_read what k =
     JsError (''Cannot read properties of '' @ what @ '' (reading '' @ [CHR 0x27] @ k @ [CHR 0x27] @ '')'')"

text \<open>
  Property read in general: on \<open>undefined\<close> and \<open>null\<close> it throws a TypeError
  (the messages are V8's).
\<close>

fun member :: "jsval \<Rightarrow> string \<Rightarrow> js_error + jsval" where
  "member JUndefined k = Inl (cannot_read ''undefined'' k)"
| "member JNull k = Inl (cannot_read ''null'' k)"
| "member v k = Inr (read_prop v k)"

text \<open>
  \<open>const { files, ... } = req.body\<close> throws a TypeError of its own wording when
  \<open>req.body\<close> is \<open>undefined\<close> or \<open>null\<close>.
\<close>

definition cannot_destructure :: "string \<Rightarrow> js_error" where
  "cannot_destructure what =
     JsError (''Cannot destructure property '' @ [CHR 0x27] @ ''files'' @ [CHR 0x27] @ '' of ''
              @ [CHR 0x27] @ ''req.body'' @ [CHR 0x27] @ '' as it is '' @ what @ ''.'')"

fun destructure_files :: "jsval \<Rightarrow> js_error + jsval" where
  "destructure_files JUndefined = Inl (cannot_destructure ''undefined'')"
| "destructure_files JNull = Inl (cannot_destructure ''null'')"
| "destructure_files v = Inr (read_prop v ''files'')"

text \<open>A destructuring default \<open>{ k = d }\<close> applies exactly when the property is \<open>undefined\<close>.\<close>

definition defaulted :: "jsval \<Rightarrow> jsval \<Rightarrow> jsval" where
  "defaulted v d = (if v = JUndefined then d else v)"

section \<open>Configuration and request\<close>

record config =
  ALLOWED_ORIGINS :: "string list"
  OWNER :: string
  REPO :: string
  BRANCH :: string

text \<open>
  What the handler reads of an Express request: \<open>req.get('origin')\<close> and \<open>req.ip\<close>
  (each a string or \<open>undefined\<close>) and \<open>req.body\<close>.
\<close>

record request =
  origin_header :: "string option"
  ip :: "string option"
  body :: jsval

text \<open>\<open>a || b\<close> on a string that may be \<open>undefined\<close>: the empty string is falsy too.\<close>

fun or_else :: "string option \<Rightarrow> string \<Rightarrow> string" where
  "or_else None d = d"
| "or_else (Some s) d = (if s = [] then d else s)"

definition includes_opt :: "string list \<Rightarrow> string option \<Rightarrow> bool" where
  "includes_opt xs v = (case v of None \<Rightarrow> False | Some s \<Rightarrow> s \<in> set xs)"

definition isOriginAllowed :: "config \<Rightarrow> request \<Rightarrow> bool" where
  "isOriginAllowed cfg req =
     (let origin = or_else (origin_header req) (or_else (ip req) [])
      in if length (ALLOWED_ORIGINS cfg) = 0 then True
         else origin \<in> set (ALLOWED_ORIGINS cfg) \<or> includes_opt (ALLOWED_ORIGINS cfg) (ip req))"

section \<open>The platform: Buffer and the Octokit client\<close>

record get_args =
  get_owner :: string
  get_repo :: string
  get_path :: jsval
  get_ref :: jsval

record put_args =
  put_owner :: string
  put_repo :: string
  put_path :: jsval
  put_message :: jsval
  put_content :: string
  put_branch :: jsval
  put_sha :: jsval

datatype call = GetContent get_args | CreateOrUpdateFileContents put_args

text \<open>
  The handler's collaborators are not part of the repository, so they are parameters of the
  model. \<open>'s\<close> is the state of the world behind the Octokit client: a call takes the state
  and yields either a rejection (\<open>Inl\<close>) or the resolved value (\<open>Inr\<close>), and the next
  state. The three codecs are those of Node's \<open>Buffer\<close>: \<open>Buffer.from(s, 'utf8')\<close>,
  \<open>Buffer.from(s, 'base64')\<close> and \<open>buf.toString('base64')\<close>; \<open>from_object\<close> is
  \<open>Buffer.from\<close> on an array or an object, and \<open>invalid_arg\<close> the TypeError it throws
  on any other non-string.
\<close>

record 's runtime =
  from_utf8 :: "string \<Rightarrow> bytes"
  from_base64 :: "string \<Rightarrow> bytes"
  to_base64 :: "bytes \<Rightarrow> string"
  from_object :: "jsval \<Rightarrow> js_error + bytes"
  invalid_arg :: "jsval \<Rightarrow> js_error"
  getContent :: "get_args \<Rightarrow> 's \<Rightarrow> (js_error + jsval) \<times> 's"
  createOrUpdateFileContents :: "put_args \<Rightarrow> 's \<Rightarrow> (js_error + jsval) \<times> 's"

datatype buffer_encoding = Base64 | Utf8

fun Buffer_from :: "'s runtime \<Rightarrow> jsval \<Rightarrow> buffer_encoding \<Rightarrow> js_error + bytes" where
  "Buffer_from rt (JStr s) Base64 = Inr (from_base64 rt s)"
| "Buffer_from rt (JStr s) Utf8 = Inr (from_utf8 rt s)"
| "Buffer_from rt (JArr xs) enc = from_object rt (JArr xs)"
| "Buffer_from rt (JObj kvs) enc = from_object rt (JObj kvs)"
| "Buffer_from rt v enc = Inl (invalid_arg rt v)"

section \<open>The handler of POST /tasks\<close>

record response =
  status :: nat
  json :: jsval

text \<open>
  The mutable part of one handler run: the \<open>results\<close> array, the state of the remote
  service, and the calls made to it so far.
\<close>

record 's run =
  results :: "jsval list"
  remote :: 's
  calls :: "call list"

definition skipped_result :: "jsval \<Rightarrow> jsval" where
  "skipped_result p =
     JObj [(''path'', if truthy p then p else JNull),
           (''status'', JStr ''skipped''),
           (''reason'', JStr ''invalid file object'')]"

definition ok_result :: "jsval \<Rightarrow> jsval \<Rightarrow> jsval" where
  "ok_result p commitSha =
     JObj [(''path'', p), (''status'', JStr ''ok''), (''commitSha'', commitSha)]"

definition error_result :: "jsval \<Rightarrow> js_error \<Rightarrow> jsval" where
  "error_result p err =
     JObj [(''path'', p), (''status'', JStr ''error''), (''message'', JStr (message err))]"

text \<open>
  The first \<open>try\<close> block: \<open>sha\<close> stays \<open>undefined\<close> unless the read resolves with a
  value whose \<open>data.sha\<close> is truthy; a rejected read is swallowed by the empty \<open>catch\<close>.
\<close>

definition sha_of :: "jsval \<Rightarrow> jsval" where
  "sha_of getRes =
     (if truthy getRes \<and> truthy (read_prop getRes ''data'') \<and> truthy (read_prop (read_prop getRes ''data'') ''sha'')
      then read_prop (read_prop getRes ''data'') ''sha'' else JUndefined)"

definition get_args_of :: "config \<Rightarrow> jsval \<Rightarrow> jsval \<Rightarrow> get_args" where
  "get_args_of cfg branch p =
     \<lparr>get_owner = OWNER cfg, get_repo = REPO cfg, get_path = p, get_ref = branch\<rparr>"

definition read_sha :: "'s runtime \<Rightarrow> config \<Rightarrow> jsval \<Rightarrow> jsval \<Rightarrow> 's \<Rightarrow> jsval \<times> 's" where
  "read_sha rt cfg branch p s =
     (case getContent rt (get_args_of cfg branch p) s of
        (Inl err, s') \<Rightarrow> (JUndefined, s')
      | (Inr getRes, s') \<Rightarrow> (sha_of getRes, s'))"

text \<open>\<open>createRes.data.commit.sha\<close>, evaluated inside the second \<open>try\<close> block.\<close>

definition commit_sha :: "jsval \<Rightarrow> js_error + jsval" where
  "commit_sha createRes =
     (case member createRes ''data'' of
        Inl err \<Rightarrow> Inl err
      | Inr d \<Rightarrow>
          (case member d ''commit'' of
             Inl err \<Rightarrow> Inl err
           | Inr c \<Rightarrow> member c ''sha''))"

definition put_args_of ::
  "config \<Rightarrow> jsval \<Rightarrow> jsval \<Rightarrow> jsval \<Rightarrow> string \<Rightarrow> jsval \<Rightarrow> put_args" where
  "put_args_of cfg commitMessage branch p encoded sha =
     \<lparr>put_owner = OWNER cfg, put_repo = REPO cfg, put_path = p, put_message = commitMessage,
      put_content = encoded, put_branch = branch, put_sha = sha\<rparr>"

text \<open>
  The second \<open>try\<close> block: the value pushed to \<open>results\<close> after the write, and the
  state the write leaves.
\<close>

definition write_file :: "'s runtime \<Rightarrow> put_args \<Rightarrow> 's \<Rightarrow> jsval \<times> 's" where
  "write_file rt pargs s =
     (case createOrUpdateFileContents rt pargs s of
        (Inl err, s') \<Rightarrow> (error_result (put_path pargs) err, s')
      | (Inr createRes, s') \<Rightarrow>
          (case commit_sha createRes of
             Inl err \<Rightarrow> (error_result (put_path pargs) err, s')
           | Inr commitSha \<Rightarrow> (ok_result (put_path pargs) commitSha, s')))"

text \<open>
  The two lines under \<open>// Prepare content\<close>: decode \<open>f.content\<close> as base64
  when \<open>f.encoding === 'base64'\<close> and as UTF-8 otherwise, then encode the bytes as
  base64. \<open>Buffer.from\<close> may throw, and neither \<open>try\<close> block encloses it.
\<close>

definition encoded_content :: "'s runtime \<Rightarrow> jsval \<Rightarrow> js_error + string" where
  "encoded_content rt f =
     (case Buffer_from rt (read_prop f ''content'')
             (if read_prop f ''encoding'' = JStr ''base64'' then Base64 else Utf8) of
        Inl err \<Rightarrow> Inl err
      | Inr contentBuffer \<Rightarrow> Inr (to_base64 rt contentBuffer))"

text \<open>
  The guard \<open>!f.path || typeof f.content === 'undefined'\<close> on an entry whose
  properties can be read.
\<close>

definition invalid_file_object :: "jsval \<Rightarrow> bool" where
  "invalid_file_object f =
     (\<not> truthy (read_prop f ''path'') \<or> read_prop f ''content'' = JUndefined)"

text \<open>
  One iteration of \<open>for (const f of files)\<close>. The first component is the error that
  leaves the loop body, if one does; the run it comes with keeps the calls already made.
\<close>

definition process_file ::
  "'s runtime \<Rightarrow> config \<Rightarrow> jsval \<Rightarrow> jsval \<Rightarrow> jsval \<Rightarrow> 's run \<Rightarrow> js_error option \<times> 's run" where
  "process_file rt cfg commitMessage branch f r =
     (case member f ''path'' of
        Inl err \<Rightarrow> (Some err, r)
      | Inr p \<Rightarrow>
          if invalid_file_object f then
            (None, r\<lparr>results := results r @ [skipped_result p]\<rparr>)
          else
            (let (sha, s1) = read_sha rt cfg branch p (remote r);
                 r1 = r\<lparr>remote := s1, calls := calls r @ [GetContent (get_args_of cfg branch p)]\<rparr>
             in case encoded_content rt f of
                  Inl err \<Rightarrow> (Some err, r1)
                | Inr encoded \<Rightarrow>
                    (let pargs = put_args_of cfg commitMessage branch p encoded sha;
                         (res, s2) = write_file rt pargs s1
                     in (None, r1\<lparr>results := results r1 @ [res], remote := s2,
                                  calls := calls r1 @ [CreateOrUpdateFileContents pargs]\<rparr>))))"

fun tasks_loop ::
  "'s runtime \<Rightarrow> config \<Rightarrow> jsval \<Rightarrow> jsval \<Rightarrow> jsval list \<Rightarrow> 's run \<Rightarrow> js_error option \<times> 's run" where
  "tasks_loop rt cfg commitMessage branch [] r = (None, r)"
| "tasks_loop rt cfg commitMessage branch (f # fs) r =
     (case process_file rt cfg commitMessage branch f r of
        (Some err, r') \<Rightarrow> (Some err, r')
      | (None, r') \<Rightarrow> tasks_loop rt cfg commitMessage branch fs r')"

definition error_body :: "string \<Rightarrow> jsval" where
  "error_body msg = JObj [(''error'', JStr msg)]"

definition internal_error :: "js_error \<Rightarrow> response" where
  "internal_error err =
     \<lparr>status = 500, json = error_body (if message err = [] then ''internal error'' else message err)\<rparr>"

definition ok_body :: "jsval list \<Rightarrow> jsval" where
  "ok_body rs = JObj [(''ok'', JBool True), (''results'', JArr rs)]"

text \<open>
  \<open>app.post('/tasks', ...)\<close>: the response, and the run with the calls made and the state
  they left. \<open>res.json\<close> without \<open>res.status\<close> answers 200.
\<close>

definition tasks_handler :: "'s runtime \<Rightarrow> config \<Rightarrow> request \<Rightarrow> 's \<Rightarrow> response \<times> 's run" where
  "tasks_handler rt cfg req s =
     (let r0 = \<lparr>results = [], remote = s, calls = []\<rparr>
      in if \<not> isOriginAllowed cfg req then
           (\<lparr>status = 403, json = error_body ''origin not allowed''\<rparr>, r0)
         else
           (case destructure_files (body req) of
              Inl err \<Rightarrow> (internal_error err, r0)
            | Inr files \<Rightarrow>
                (let commitMessage = defaulted (read_prop (body req) ''commitMessage'') (JStr ''Agent: generate files'');
                     branch = defaulted (read_prop (body req) ''branch'') (JStr (BRANCH cfg))
                 in case files of
                      JArr fs \<Rightarrow>
                        if length fs = 0 then
                          (\<lparr>status = 400, json = error_body ''files array required''\<rparr>, r0)
                        else
                          (case tasks_loop rt cfg commitMessage branch fs r0 of
                             (Some err, r) \<Rightarrow> (internal_error err, r)
                           | (None, r) \<Rightarrow> (\<lparr>status = 200, json = ok_body (results r)\<rparr>, r))
                    | _ \<Rightarrow> (\<lparr>status = 400, json = error_body ''files array required''\<rparr>, r0))))"

section \<open>The cors middleware in front of the handler\<close>

text \<open>
  \<open>corsOptions.origin\<close>: the callback gets the request's Origin header and reports
  either \<open>callback(null, true)\<close> (\<open>Inr True\<close>) or
  \<open>callback(new Error('Not allowed by CORS'))\<close> (\<open>Inl\<close>). \<open>!origin\<close> holds for
  a missing header and for an empty one.
\<close>

definition corsOptions_origin :: "config \<Rightarrow> string option \<Rightarrow> js_error + bool" where
  "corsOptions_origin cfg origin =
     (case origin of
        None \<Rightarrow> Inr True
      | Some orig \<Rightarrow>
          if orig = [] then Inr True
          else if length (ALLOWED_ORIGINS cfg) = 0 \<or> orig \<in> set (ALLOWED_ORIGINS cfg) then Inr True
          else Inl (JsError ''Not allowed by CORS''))"

text \<open>
  \<open>app.use(cors(corsOptions))\<close> stands before \<open>app.post('/tasks', ...)\<close>. Neither
  the cors package nor Express is in the repository; two facts about them are used. The
  cors middleware calls the callback with \<open>req.headers.origin\<close> and, when the
  callback reports an error, passes it to \<open>next\<close>, so the handler does not run.
  Express's default error handler answers an error that carries no status with 500 and
  an HTML page; no \<open>res.json\<close> is made, which \<open>json = JUndefined\<close> stands for.
\<close>

definition default_error_handler :: "js_error \<Rightarrow> response" where
  "default_error_handler err = \<lparr>status = 500, json = JUndefined\<rparr>"

text \<open>A \<open>POST /tasks\<close> request through the cors middleware and then the handler.\<close>

definition post_tasks :: "'s runtime \<Rightarrow> config \<Rightarrow> request \<Rightarrow> 's \<Rightarrow> response \<times> 's run" where
  "post_tasks rt cfg req s =
     (case corsOptions_origin cfg (origin_header req) of
        Inl err \<Rightarrow> (default_error_handler err, \<lparr>results = [], remote = s, calls = []\<rparr>)
      | Inr allow \<Rightarrow> tasks_handler rt cfg req s)"

section \<open>The documented body schema\<close>

text \<open>
  The comment above the handler documents the body as
  \<open>{ "files": [ { "path": ..., "content": "base64 or plain text", "encoding": ... } ], ... }\<close>.
  \<open>file_object\<close> is the part of that schema the loop depends on: the entry is an
  object, and its \<open>content\<close>, when present, is a string. Nothing is asked of
  \<open>path\<close> or \<open>encoding\<close>.
\<close>

definition file_object :: "jsval \<Rightarrow> bool" where
  "file_object f =
     (case f of
        JObj kvs \<Rightarrow>
          (case read_prop f ''content'' of JUndefined \<Rightarrow> True | JStr c \<Rightarrow> True | _ \<Rightarrow> False)
      | _ \<Rightarrow> False)"

text \<open>
  What a request names when it calls a service method: the method and the \<open>path\<close>
  argument. \<open>calls_for\<close> lists what one entry of \<open>files\<close> is to cause.
\<close>

datatype call_kind = Read | Write

fun target :: "call \<Rightarrow> call_kind \<times> jsval" where
  "target (GetContent ga) = (Read, get_path ga)"
| "target (CreateOrUpdateFileContents pa) = (Write, put_path pa)"

definition calls_for :: "jsval \<Rightarrow> (call_kind \<times> jsval) list" where
  "calls_for f =
     (if invalid_file_object f then []
      else [(Read, read_prop f ''path''), (Write, read_prop f ''path'')])"

text \<open>
  What the loop is to append to \<open>results\<close> for one entry: the skipped record for an
  entry the guard rejects, and otherwise a record with the entry's \<open>path\<close> whose
  \<open>status\<close> is \<open>ok\<close> or \<open>error\<close>.
\<close>

definition result_for :: "jsval \<Rightarrow> jsval \<Rightarrow> bool" where
  "result_for f res =
     (if invalid_file_object f then res = skipped_result (read_prop f ''path'')
      else read_prop res ''path'' = read_prop f ''path'' \<and>
           (read_prop res ''status'' = JStr ''ok'' \<or> read_prop res ''status'' = JStr ''error''))"

section \<open>A concrete platform\<close>

text \<open>
  To run the handler on concrete requests: the standard base64 alphabet with padding, a
  decoder that reads the standard and the URL-safe alphabet (\<open>-\<close> for \<open>+\<close>,
  \<open>_\<close> for \<open>/\<close>), skips every other character and stops at the padding, UTF-8 for
  the code points below 256 that a \<open>char\<close> can hold, and a remote service that
  answers from a script, one prepared outcome per call. This platform takes strings only
  as content: on anything else its \<open>Buffer.from\<close> throws.
\<close>

definition b64_digit :: "nat \<Rightarrow> char" where
  "b64_digit n =
     ''ABCDEFGHIJKLMNOPQRSTUVWXYZabcdefghijklmnopqrstuvwxyz0123456789+/'' ! (n mod 64)"

fun b64_encode :: "bytes \<Rightarrow> string" where
  "b64_encode [] = []"
| "b64_encode [a] =
     (let x = unat a
      in [b64_digit (x div 4), b64_digit ((x mod 4) * 16), CHR ''='', CHR ''=''])"
| "b64_encode [a, b] =
     (let x = unat a; y = unat b
      in [b64_digit (x div 4), b64_digit ((x mod 4) * 16 + y div 16),
          b64_digit ((y mod 16) * 4), CHR ''=''])"
| "b64_encode (a # b # c # rest) =
     (let x = unat a; y = unat b; z = unat c
      in [b64_digit (x div 4), b64_digit ((x mod 4) * 16 + y div 16),
          b64_digit ((y mod 16) * 4 + z div 64), b64_digit (z mod 64)] @ b64_encode rest)"

definition b64_value :: "char \<Rightarrow> nat option" where
  "b64_value ch =
     (let n = (of_char ch :: nat)
      in if 65 \<le> n \<and> n \<le> 90 then Some (n - 65)
         else if 97 \<le> n \<and> n \<le> 122 then Some (n - 71)
         else if 48 \<le> n \<and> n \<le> 57 then Some (n + 4)
         else if n = 43 \<or> n = 45 then Some 62
         else if n = 47 \<or> n = 95 then Some 63
         else None)"

fun b64_groups :: "nat list \<Rightarrow> bytes" where
  "b64_groups (a # b # c # d # rest) =
     [of_nat (a * 4 + b div 16), of_nat ((b mod 16) * 16 + c div 4), of_nat ((c mod 4) * 64 + d)]
       @ b64_groups rest"
| "b64_groups [a, b, c] = [of_nat (a * 4 + b div 16), of_nat ((b mod 16) * 16 + c div 4)]"
| "b64_groups [a, b] = [of_nat (a * 4 + b div 16)]"
| "b64_groups xs = []"

definition b64_decode :: "string \<Rightarrow> bytes" where
  "b64_decode s = b64_groups (List.map_filter b64_value (takeWhile (\<lambda>ch. ch \<noteq> CHR ''='') s))"

definition utf8_encode :: "string \<Rightarrow> bytes" where
  "utf8_encode s =
     concat (map (\<lambda>ch. let n = (of_char ch :: nat)
                        in if n < 128 then [of_nat n]
                           else [of_nat (192 + n div 64), of_nat (128 + n mod 64)]) s)"

type_synonym script = "(js_error + jsval) list"

definition scripted :: "script \<Rightarrow> (js_error + jsval) \<times> script" where
  "scripted s = (case s of [] \<Rightarrow> (Inl (JsError ''socket hang up''), []) | x # xs \<Rightarrow> (x, xs))"

definition demo_runtime :: "script runtime" where
  "demo_runtime =
     \<lparr>from_utf8 = utf8_encode,
      from_base64 = b64_decode,
      to_base64 = b64_encode,
      from_object = (\<lambda>v. Inl (JsError ''The first argument must be of type string'')),
      invalid_arg = (\<lambda>v. JsError ''The first argument must be of type string''),
      getContent = (\<lambda>args. scripted),
      createOrUpdateFileContents = (\<lambda>args. scripted)\<rparr>"

text \<open>
  A second service, which keeps what it is sent: its state is the list of the arguments of
  the writes it received. Every read is rejected and every write is committed.
\<close>

definition recording_runtime :: "put_args list runtime" where
  "recording_runtime =
     \<lparr>from_utf8 = utf8_encode,
      from_base64 = b64_decode,
      to_base64 = b64_encode,
      from_object = (\<lambda>v. Inl (JsError ''The first argument must be of type string'')),
      invalid_arg = (\<lambda>v. JsError ''The first argument must be of type string''),
      getContent = (\<lambda>args received. (Inl (JsError ''Not Found''), received)),
      createOrUpdateFileContents =
        (\<lambda>args received.
           (Inr (JObj [(''data'', JObj [(''commit'', JObj [(''sha'', JStr ''c0ffee'')])])]),
            received @ [args]))\<rparr>"

definition demo_config :: "string list \<Rightarrow> config" where
  "demo_config allowed =
     \<lparr>ALLOWED_ORIGINS = allowed, OWNER = ''acme'', REPO = ''site'', BRANCH = ''main''\<rparr>"

text \<open>Requests and service answers for the concrete runs below.\<close>

definition demo_request :: "string option \<Rightarrow> string option \<Rightarrow> jsval list \<Rightarrow> request" where
  "demo_request origin addr fs =
     \<lparr>origin_header = origin, ip = addr, body = JObj [(''files'', JArr fs)]\<rparr>"

definition text_file :: "string \<Rightarrow> string \<Rightarrow> jsval" where
  "text_file p c = JObj [(''path'', JStr p), (''content'', JStr c)]"

definition base64_file :: "string \<Rightarrow> string \<Rightarrow> jsval" where
  "base64_file p c = JObj [(''path'', JStr p), (''content'', JStr c), (''encoding'', JStr ''base64'')]"

definition not_found :: "js_error + jsval" where
  "not_found = Inl (JsError ''Not Found'')"

definition found :: "string \<Rightarrow> js_error + jsval" where
  "found h = Inr (JObj [(''data'', JObj [(''sha'', JStr h)])])"

definition committed :: "string \<Rightarrow> js_error + jsval" where
  "committed h = Inr (JObj [(''data'', JObj [(''commit'', JObj [(''sha'', JStr h)])])])"

definition rejected :: "string \<Rightarrow> js_error + jsval" where
  "rejected msg = Inl (JsError msg)"

section \<open>Reading properties\<close>

lemma member_readable:
  "f \<noteq> JUndefined \<Longrightarrow> f \<noteq> JNull \<Longrightarrow> member f k = Inr (read_prop f k)"
  by (cases f) simp_all

lemma destructure_files_readable:
  "b \<noteq> JUndefined \<Longrightarrow> b \<noteq> JNull \<Longrightarrow> destructure_files b = Inr (read_prop b ''files'')"
  by (cases b) simp_all

lemma truthy_prop_readable: "truthy (read_prop f k) \<Longrightarrow> f \<noteq> JUndefined \<and> f \<noteq> JNull"
  by (cases f) simp_all


section \<open>The origin check\<close>

lemma isOriginAllowed_iff:
  "isOriginAllowed cfg req \<longleftrightarrow>
     ALLOWED_ORIGINS cfg = [] \<or>
     or_else (origin_header req) (or_else (ip req) []) \<in> set (ALLOWED_ORIGINS cfg) \<or>
     includes_opt (ALLOWED_ORIGINS cfg) (ip req)"
  by (simp add: isOriginAllowed_def Let_def)

section \<open>One iteration of the loop\<close>

lemma read_sha_eq:
  "read_sha rt cfg br p s =
     ((case fst (getContent rt (get_args_of cfg br p) s) of
         Inl err \<Rightarrow> JUndefined | Inr getRes \<Rightarrow> sha_of getRes),
      snd (getContent rt (get_args_of cfg br p) s))"
  by (simp add: read_sha_def split: prod.split sum.split)



lemma process_file_skipped:
  assumes "f \<noteq> JUndefined" "f \<noteq> JNull" "invalid_file_object f"
  shows "process_file rt cfg cm br f r =
           (None, r\<lparr>results := results r @ [skipped_result (read_prop f ''path'')]\<rparr>)"
  using assms by (simp add: process_file_def member_readable)

lemma process_file_valid:
  assumes "\<not> invalid_file_object f" "encoded_content rt f = Inr enc"
  shows "process_file rt cfg cm br f r =
           (let p = read_prop f ''path'';
                rd = read_sha rt cfg br p (remote r);
                pa = put_args_of cfg cm br p enc (fst rd);
                w = write_file rt pa (snd rd)
            in (None, \<lparr>results = results r @ [fst w], remote = snd w,
                       calls = calls r @ [GetContent (get_args_of cfg br p),
                                          CreateOrUpdateFileContents pa]\<rparr>))"
proof -
  from assms(1) have "truthy (read_prop f ''path'')"
    by (simp add: invalid_file_object_def)
  then have m: "member f ''path'' = Inr (read_prop f ''path'')"
    using truthy_prop_readable member_readable by blast
  show ?thesis
    using assms m
    by (cases r) (simp add: process_file_def Let_def case_prod_beta)
qed

lemma process_file_undecodable:
  assumes "\<not> invalid_file_object f" "encoded_content rt f = Inl err"
  shows "process_file rt cfg cm br f r =
           (Some err, r\<lparr>remote := snd (read_sha rt cfg br (read_prop f ''path'') (remote r)),
                        calls := calls r @ [GetContent (get_args_of cfg br (read_prop f ''path''))]\<rparr>)"
proof -
  from assms(1) have "truthy (read_prop f ''path'')"
    by (simp add: invalid_file_object_def)
  then have m: "member f ''path'' = Inr (read_prop f ''path'')"
    using truthy_prop_readable member_readable by blast
  show ?thesis
    using assms m
    by (simp add: process_file_def Let_def case_prod_beta)
qed

lemma encoded_content_string:
  "read_prop f ''content'' = JStr c \<Longrightarrow>
   encoded_content rt f =
     Inr (to_base64 rt (if read_prop f ''encoding'' = JStr ''base64''
                        then from_base64 rt c else from_utf8 rt c))"
  by (simp add: encoded_content_def)

lemma write_file_shape:
  "read_prop (fst (write_file rt pa s)) ''path'' = put_path pa \<and>
   (read_prop (fst (write_file rt pa s)) ''status'' = JStr ''ok'' \<or>
    read_prop (fst (write_file rt pa s)) ''status'' = JStr ''error'')"
  by (simp add: write_file_def ok_result_def error_result_def split: prod.split sum.split)

lemma write_file_rejected:
  "createOrUpdateFileContents rt pa s = (Inl err, s') \<Longrightarrow>
   write_file rt pa s = (error_result (put_path pa) err, s')"
  by (simp add: write_file_def)

lemma put_path_put_args_of [simp]: "put_path (put_args_of cfg cm br p e h) = p"
  by (simp add: put_args_of_def)

lemma get_path_get_args_of [simp]: "get_path (get_args_of cfg br p) = p"
  by (simp add: get_args_of_def)

section \<open>The loop over entries of the documented shape\<close>

lemma file_object_cases:
  assumes "file_object f"
  shows "f \<noteq> JUndefined \<and> f \<noteq> JNull \<and>
         (invalid_file_object f \<or> (\<exists>c. read_prop f ''content'' = JStr c))"
  using assms
  by (cases f) (auto simp: file_object_def invalid_file_object_def split: jsval.splits)

lemma process_file_file_object:
  assumes "file_object f"
  shows "\<exists>res s' cs. process_file rt cfg cm br f r =
            (None, \<lparr>results = results r @ [res], remote = s', calls = calls r @ cs\<rparr>) \<and>
          result_for f res \<and> map target cs = calls_for f"
proof (cases "invalid_file_object f")
  case True
  with file_object_cases[OF assms] have
    "process_file rt cfg cm br f r =
       (None, r\<lparr>results := results r @ [skipped_result (read_prop f ''path'')]\<rparr>)"
    by (simp add: process_file_skipped)
  with True show ?thesis
    by (cases r) (simp add: result_for_def calls_for_def)
next
  case False
  with file_object_cases[OF assms] obtain c where c: "read_prop f ''content'' = JStr c"
    by blast
  note pf = process_file_valid[OF False encoded_content_string[OF c]]
  show ?thesis
    unfolding pf Let_def
    using False write_file_shape[where rt=rt]
    by (simp add: result_for_def calls_for_def)
qed

lemma tasks_loop_file_objects:
  assumes "\<forall>f\<in>set fs. file_object f"
  shows "\<exists>rs s' cs. tasks_loop rt cfg cm br fs r =
            (None, \<lparr>results = results r @ rs, remote = s', calls = calls r @ cs\<rparr>) \<and>
          list_all2 result_for fs rs \<and> map target cs = concat (map calls_for fs)"
  using assms
proof (induction fs arbitrary: r)
  case Nil
  then show ?case by (cases r) simp
next
  case (Cons f fs)
  then have "file_object f" by simp
  from process_file_file_object[OF this, where rt=rt and cfg=cfg and cm=cm and br=br and r=r]
  obtain res s1 cs1 where
    step: "process_file rt cfg cm br f r =
             (None, \<lparr>results = results r @ [res], remote = s1, calls = calls r @ cs1\<rparr>)"
    and res: "result_for f res" and cs1: "map target cs1 = calls_for f"
    by blast
  let ?r1 = "\<lparr>results = results r @ [res], remote = s1, calls = calls r @ cs1\<rparr>"
  from Cons have "\<forall>f\<in>set fs. file_object f" by simp
  from Cons.IH[OF this, where r="?r1"]
  obtain rs s2 cs2 where
    rest: "tasks_loop rt cfg cm br fs ?r1 =
             (None, \<lparr>results = results ?r1 @ rs, remote = s2, calls = calls ?r1 @ cs2\<rparr>)"
    and rs: "list_all2 result_for fs rs" and cs2: "map target cs2 = concat (map calls_for fs)"
    by blast
  have "tasks_loop rt cfg cm br (f # fs) r =
          (None, \<lparr>results = results r @ (res # rs), remote = s2, calls = calls r @ (cs1 @ cs2)\<rparr>)"
    using step rest by simp
  moreover have "list_all2 result_for (f # fs) (res # rs)" using res rs by simp
  moreover have "map target (cs1 @ cs2) = concat (map calls_for (f # fs))" using cs1 cs2 by simp
  ultimately show ?case by blast
qed

lemma tasks_loop_append:
  "tasks_loop rt cfg cm br (xs @ ys) r =
     (case tasks_loop rt cfg cm br xs r of
        (Some err, r') \<Rightarrow> (Some err, r')
      | (None, r') \<Rightarrow> tasks_loop rt cfg cm br ys r')"
  by (induction xs arbitrary: r) (auto split: prod.split option.split)

section \<open>The handler\<close>

lemma tasks_handler_rejected:
  assumes "\<not> isOriginAllowed cfg req"
  shows "tasks_handler rt cfg req s =
           (\<lparr>status = 403, json = JObj [(''error'', JStr ''origin not allowed'')]\<rparr>,
            \<lparr>results = [], remote = s, calls = []\<rparr>)"
  using assms by (simp add: tasks_handler_def error_body_def)

lemma post_tasks_passed:
  "corsOptions_origin cfg (origin_header req) = Inr allow \<Longrightarrow>
   post_tasks rt cfg req s = tasks_handler rt cfg req s"
  by (simp add: post_tasks_def)

lemma corsOptions_origin_empty_list:
  "ALLOWED_ORIGINS cfg = [] \<Longrightarrow> corsOptions_origin cfg origin = Inr True"
  by (simp add: corsOptions_origin_def split: option.split)

lemma write_file_eq:
  "write_file rt pa s =
     (case fst (createOrUpdateFileContents rt pa s) of
        Inl err \<Rightarrow> error_result (put_path pa) err
      | Inr createRes \<Rightarrow>
          (case commit_sha createRes of
             Inl err \<Rightarrow> error_result (put_path pa) err
           | Inr commitSha \<Rightarrow> ok_result (put_path pa) commitSha),
      snd (createOrUpdateFileContents rt pa s))"
  by (simp add: write_file_def split: prod.split sum.split)

lemma tasks_handler_accepted:
  assumes "isOriginAllowed cfg req" "read_prop (body req) ''files'' = JArr fs" "fs \<noteq> []"
  shows "tasks_handler rt cfg req s =
           (case tasks_loop rt cfg
                   (defaulted (read_prop (body req) ''commitMessage'') (JStr ''Agent: generate files''))
                   (defaulted (read_prop (body req) ''branch'') (JStr (BRANCH cfg)))
                   fs \<lparr>results = [], remote = s, calls = []\<rparr> of
              (Some err, r) \<Rightarrow> (internal_error err, r)
            | (None, r) \<Rightarrow> (\<lparr>status = 200, json = ok_body (results r)\<rparr>, r))"
proof -
  have "destructure_files (body req) = Inr (JArr fs)"
    using assms(2) by (cases "body req") simp_all
  then show ?thesis
    using assms(1,3) by (simp add: tasks_handler_def Let_def)
qed

lemma tasks_handler_file_objects:
  assumes "isOriginAllowed cfg req" "read_prop (body req) ''files'' = JArr fs" "fs \<noteq> []"
    and "\<forall>f\<in>set fs. file_object f"
  shows "\<exists>rs s' cs. tasks_handler rt cfg req s =
            (\<lparr>status = 200, json = ok_body rs\<rparr>, \<lparr>results = rs, remote = s', calls = cs\<rparr>) \<and>
          list_all2 result_for fs rs \<and> map target cs = concat (map calls_for fs)"
proof -
  let ?cm = "defaulted (read_prop (body req) ''commitMessage'') (JStr ''Agent: generate files'')"
  let ?br = "defaulted (read_prop (body req) ''branch'') (JStr (BRANCH cfg))"
  let ?r0 = "\<lparr>results = [], remote = s, calls = []\<rparr>"
  from tasks_loop_file_objects[OF assms(4), where rt=rt and cfg=cfg and cm="?cm" and br="?br" and r="?r0"]
  obtain rs s' cs where
    loop: "tasks_loop rt cfg ?cm ?br fs ?r0 = (None, \<lparr>results = rs, remote = s', calls = cs\<rparr>)"
    and rs: "list_all2 result_for fs rs" and cs: "map target cs = concat (map calls_for fs)"
    by auto
  have "tasks_handler rt cfg req s =
          (\<lparr>status = 200, json = ok_body rs\<rparr>, \<lparr>results = rs, remote = s', calls = cs\<rparr>)"
    by (simp add: tasks_handler_accepted[OF assms(1-3)] loop)
  with rs cs show ?thesis by blast
qed

section \<open>Claims about the origin check and the request validation\<close>

text \<open>
  C3, as the code has it. The claim says that a request without an Origin header always
  passes the origin check. \<open>isOriginAllowed\<close> falls back to \<open>req.ip\<close> for such a
  request, so with a non-empty allow-list it passes exactly when its source address is
  listed. First the failing instance: no Origin header, an allow-list that holds one
  origin, a source address that is not in it.
\<close>

theorem originless_request_rejected:
  "origin_header (demo_request None (Some ''203.0.113.7'') [text_file ''a.txt'' ''hi'']) = None \<and>
   \<not> isOriginAllowed (demo_config [''https://app.example''])
         (demo_request None (Some ''203.0.113.7'') [text_file ''a.txt'' ''hi'']) \<and>
   status (fst (tasks_handler demo_runtime (demo_config [''https://app.example''])
                  (demo_request None (Some ''203.0.113.7'') [text_file ''a.txt'' ''hi''])
                  [not_found, committed ''c0ffee''])) = 403"
  by (simp add: isOriginAllowed_def tasks_handler_def demo_request_def demo_config_def
        includes_opt_def)

text \<open>
  C3, amended: a request without an Origin header passes the origin check if and only if
  the allow-list is empty or holds the request's source address (the empty string when
  the address is unknown).
\<close>

theorem originless_request_allowed_iff:
  assumes "origin_header req = None"
  shows "isOriginAllowed cfg req \<longleftrightarrow>
           ALLOWED_ORIGINS cfg = [] \<or>
           (case ip req of None \<Rightarrow> [] | Some a \<Rightarrow> a) \<in> set (ALLOWED_ORIGINS cfg)"
proof (cases "ip req")
  case None
  with assms show ?thesis
    by (simp add: isOriginAllowed_iff includes_opt_def)
next
  case (Some a)
  with assms show ?thesis
    by (cases "a = []") (auto simp: isOriginAllowed_iff includes_opt_def)
qed

theorem originless_request_allowed_iff_witness:
  "origin_header (demo_request None (Some ''203.0.113.7'') []) = None \<and>
   isOriginAllowed (demo_config [''https://app.example'', ''203.0.113.7''])
     (demo_request None (Some ''203.0.113.7'') []) \<and>
   isOriginAllowed (demo_config []) (demo_request None (Some ''203.0.113.7'') [])"
proof -
  have h: "origin_header (demo_request None (Some ''203.0.113.7'') []) = None"
    by (simp add: demo_request_def)
  show ?thesis
    using h
      originless_request_allowed_iff[OF h, of "demo_config [''https://app.example'', ''203.0.113.7'']"]
      originless_request_allowed_iff[OF h, of "demo_config []"]
    by (simp add: demo_request_def demo_config_def)
qed

text \<open>
  C6, as the code has it. The claim says that a declared origin missing from a non-empty
  allow-list is answered with 403 \<open>{error: "origin not allowed"}\<close>. Such a request
  never reaches the handler: the origin callback of the cors middleware reports
  \<open>new Error('Not allowed by CORS')\<close> for it, and the answer is the error handler's
  500. Here the allow-list holds one origin and the request declares another.
\<close>

theorem unlisted_origin_stopped_by_cors:
  "ALLOWED_ORIGINS (demo_config [''https://app.example'']) \<noteq> [] \<and>
   origin_header (demo_request (Some ''https://evil.example'') (Some ''203.0.113.7'')
                    [text_file ''a.txt'' ''hi'']) = Some ''https://evil.example'' \<and>
   ''https://evil.example'' \<notin> set (ALLOWED_ORIGINS (demo_config [''https://app.example''])) \<and>
   status (fst (post_tasks demo_runtime (demo_config [''https://app.example''])
                  (demo_request (Some ''https://evil.example'') (Some ''203.0.113.7'')
                     [text_file ''a.txt'' ''hi''])
                  [not_found, committed ''c0ffee''])) = 500 \<and>
   status (fst (post_tasks demo_runtime (demo_config [''https://app.example''])
                  (demo_request (Some ''https://evil.example'') (Some ''203.0.113.7'')
                     [text_file ''a.txt'' ''hi''])
                  [not_found, committed ''c0ffee''])) \<noteq> 403"
  by (simp add: post_tasks_def corsOptions_origin_def default_error_handler_def
        demo_request_def demo_config_def)

text \<open>
  C6, amended. With a non-empty allow-list: a request whose declared origin is not in the
  list is refused by the cors middleware, with status 500 and no call to the remote
  service; a request that declares no origin and whose source address is not in the list
  is answered by the handler with 403 \<open>{error: "origin not allowed"}\<close> and no call.
  With an empty allow-list every request passes both the middleware and the handler's
  origin check, with or without a declared origin.
\<close>

theorem origin_gate_outcomes:
  "(ALLOWED_ORIGINS cfg \<noteq> [] \<and> origin_header req = Some origin \<and> origin \<noteq> [] \<and>
    origin \<notin> set (ALLOWED_ORIGINS cfg) \<longrightarrow>
      corsOptions_origin cfg (origin_header req) = Inl (JsError ''Not allowed by CORS'') \<and>
      status (fst (post_tasks rt cfg req s)) = 500 \<and>
      snd (post_tasks rt cfg req s) = \<lparr>results = [], remote = s, calls = []\<rparr>) \<and>
   (ALLOWED_ORIGINS cfg \<noteq> [] \<and> (origin_header req = None \<or> origin_header req = Some []) \<and>
    (case ip req of None \<Rightarrow> [] | Some addr \<Rightarrow> addr) \<notin> set (ALLOWED_ORIGINS cfg) \<longrightarrow>
      post_tasks rt cfg req s =
        (\<lparr>status = 403, json = JObj [(''error'', JStr ''origin not allowed'')]\<rparr>,
         \<lparr>results = [], remote = s, calls = []\<rparr>)) \<and>
   (ALLOWED_ORIGINS cfg = [] \<longrightarrow>
      corsOptions_origin cfg (origin_header req) = Inr True \<and> isOriginAllowed cfg req \<and>
      post_tasks rt cfg req s = tasks_handler rt cfg req s)"
proof (intro conjI impI)
  assume a: "ALLOWED_ORIGINS cfg \<noteq> [] \<and> origin_header req = Some origin \<and> origin \<noteq> [] \<and>
    origin \<notin> set (ALLOWED_ORIGINS cfg)"
  then show refused: "corsOptions_origin cfg (origin_header req) = Inl (JsError ''Not allowed by CORS'')"
    by (simp add: corsOptions_origin_def)
  then show "status (fst (post_tasks rt cfg req s)) = 500"
    and "snd (post_tasks rt cfg req s) = \<lparr>results = [], remote = s, calls = []\<rparr>"
    by (simp_all add: post_tasks_def default_error_handler_def)
next
  assume b: "ALLOWED_ORIGINS cfg \<noteq> [] \<and> (origin_header req = None \<or> origin_header req = Some []) \<and>
    (case ip req of None \<Rightarrow> [] | Some addr \<Rightarrow> addr) \<notin> set (ALLOWED_ORIGINS cfg)"
  then have pass: "corsOptions_origin cfg (origin_header req) = Inr True"
    by (auto simp: corsOptions_origin_def)
  from b have "\<not> isOriginAllowed cfg req"
    by (cases "ip req") (auto simp: isOriginAllowed_iff includes_opt_def)
  then have "tasks_handler rt cfg req s =
        (\<lparr>status = 403, json = JObj [(''error'', JStr ''origin not allowed'')]\<rparr>,
         \<lparr>results = [], remote = s, calls = []\<rparr>)"
    by (rule tasks_handler_rejected)
  with pass show "post_tasks rt cfg req s =
        (\<lparr>status = 403, json = JObj [(''error'', JStr ''origin not allowed'')]\<rparr>,
         \<lparr>results = [], remote = s, calls = []\<rparr>)"
    by (simp add: post_tasks_def)
next
  assume c: "ALLOWED_ORIGINS cfg = []"
  then show pass: "corsOptions_origin cfg (origin_header req) = Inr True"
    by (simp add: corsOptions_origin_def split: option.split)
  from c show "isOriginAllowed cfg req"
    by (simp add: isOriginAllowed_iff)
  from pass show "post_tasks rt cfg req s = tasks_handler rt cfg req s"
    by (simp add: post_tasks_def)
qed

theorem origin_gate_outcomes_witness:
  "status (fst (post_tasks demo_runtime (demo_config [''https://app.example''])
     (demo_request (Some ''https://evil.example'') (Some ''203.0.113.7'') [text_file ''a.txt'' ''hi''])
     [not_found, committed ''c0ffee''])) = 500 \<and>
   snd (post_tasks demo_runtime (demo_config [''https://app.example''])
     (demo_request (Some ''https://evil.example'') (Some ''203.0.113.7'') [text_file ''a.txt'' ''hi''])
     [not_found, committed ''c0ffee'']) =
     \<lparr>results = [], remote = [not_found, committed ''c0ffee''], calls = []\<rparr> \<and>
   post_tasks demo_runtime (demo_config [''https://app.example''])
     (demo_request None (Some ''203.0.113.7'') [text_file ''a.txt'' ''hi''])
     [not_found, committed ''c0ffee''] =
     (\<lparr>status = 403, json = JObj [(''error'', JStr ''origin not allowed'')]\<rparr>,
      \<lparr>results = [], remote = [not_found, committed ''c0ffee''], calls = []\<rparr>) \<and>
   isOriginAllowed (demo_config [])
     (demo_request (Some ''https://evil.example'') (Some ''203.0.113.7'') [text_file ''a.txt'' ''hi'']) \<and>
   status (fst (post_tasks demo_runtime (demo_config [])
     (demo_request (Some ''https://evil.example'') (Some ''203.0.113.7'') [text_file ''a.txt'' ''hi''])
     [not_found, committed ''c0ffee''])) = 200"
proof -
  have run: "status (fst (tasks_handler demo_runtime (demo_config [])
     (demo_request (Some ''https://evil.example'') (Some ''203.0.113.7'') [text_file ''a.txt'' ''hi''])
     [not_found, committed ''c0ffee''])) = 200"
    by code_simp
  show ?thesis
    using run
      origin_gate_outcomes[of "demo_config [''https://app.example'']"
        "demo_request (Some ''https://evil.example'') (Some ''203.0.113.7'') [text_file ''a.txt'' ''hi'']"
        "''https://evil.example''" demo_runtime "[not_found, committed ''c0ffee'']"]
      origin_gate_outcomes[of "demo_config [''https://app.example'']"
        "demo_request None (Some ''203.0.113.7'') [text_file ''a.txt'' ''hi'']"
        "''https://evil.example''" demo_runtime "[not_found, committed ''c0ffee'']"]
      origin_gate_outcomes[of "demo_config []"
        "demo_request (Some ''https://evil.example'') (Some ''203.0.113.7'') [text_file ''a.txt'' ''hi'']"
        "''https://evil.example''" demo_runtime "[not_found, committed ''c0ffee'']"]
    by (simp add: demo_request_def demo_config_def)
qed

text \<open>
  C10, as the code has it. The claim says that every request whose origin is rejected is
  answered with 403, whatever its \<open>files\<close>. A request that declares an origin missing
  from the non-empty allow-list is rejected by \<open>isOriginAllowed\<close> too, but it is the
  cors middleware that answers it, with 500: the handler and its 403 are never reached.
  Here \<open>files\<close> is not an array either.
\<close>

theorem rejected_origin_answered_by_cors:
  "\<not> isOriginAllowed (demo_config [''https://app.example''])
        \<lparr>origin_header = Some ''https://evil.example'', ip = Some ''203.0.113.7'',
         body = JObj [(''files'', JStr ''a.txt'')]\<rparr> \<and>
   status (fst (post_tasks demo_runtime (demo_config [''https://app.example''])
     \<lparr>origin_header = Some ''https://evil.example'', ip = Some ''203.0.113.7'',
      body = JObj [(''files'', JStr ''a.txt'')]\<rparr> [])) = 500 \<and>
   status (fst (post_tasks demo_runtime (demo_config [''https://app.example''])
     \<lparr>origin_header = Some ''https://evil.example'', ip = Some ''203.0.113.7'',
      body = JObj [(''files'', JStr ''a.txt'')]\<rparr> [])) \<noteq> 403"
  by (simp add: isOriginAllowed_def includes_opt_def post_tasks_def corsOptions_origin_def
        default_error_handler_def demo_config_def)

text \<open>
  C10, amended: the handler's origin check comes before its \<open>files\<close> check. Every
  request that the cors middleware lets through and that \<open>isOriginAllowed\<close> rejects is
  answered with 403 \<open>{error: "origin not allowed"}\<close> whatever its body is, so also when
  \<open>files\<close> is missing, empty or not an array, and no call is made. Those are the
  requests that declare no origin and come from an address missing from a non-empty
  allow-list.
\<close>

theorem origin_check_precedes_files_check:
  assumes "corsOptions_origin cfg (origin_header req) = Inr True"
    and "\<not> isOriginAllowed cfg req"
  shows "post_tasks rt cfg req s =
           (\<lparr>status = 403, json = JObj [(''error'', JStr ''origin not allowed'')]\<rparr>,
            \<lparr>results = [], remote = s, calls = []\<rparr>) \<and>
         (origin_header req = None \<or> origin_header req = Some []) \<and>
         ALLOWED_ORIGINS cfg \<noteq> [] \<and>
         (case ip req of None \<Rightarrow> [] | Some addr \<Rightarrow> addr) \<notin> set (ALLOWED_ORIGINS cfg)"
proof -
  from assms(2) have ne: "ALLOWED_ORIGINS cfg \<noteq> []"
    and out: "or_else (origin_header req) (or_else (ip req) []) \<notin> set (ALLOWED_ORIGINS cfg)"
    by (simp_all add: isOriginAllowed_iff)
  have less: "origin_header req = None \<or> origin_header req = Some []"
  proof (cases "origin_header req")
    case (Some orig)
    with assms(1) ne out show ?thesis
      by (cases "orig = []") (auto simp: corsOptions_origin_def split: if_splits)
  qed simp
  with out have "(case ip req of None \<Rightarrow> [] | Some addr \<Rightarrow> addr) \<notin> set (ALLOWED_ORIGINS cfg)"
    by (cases "ip req") (auto split: if_splits)
  moreover have "post_tasks rt cfg req s =
           (\<lparr>status = 403, json = JObj [(''error'', JStr ''origin not allowed'')]\<rparr>,
            \<lparr>results = [], remote = s, calls = []\<rparr>)"
    using assms(1) tasks_handler_rejected[OF assms(2)] by (simp add: post_tasks_def)
  ultimately show ?thesis using less ne by simp
qed

theorem origin_check_precedes_files_check_witness:
  "corsOptions_origin (demo_config [''https://app.example'']) None = Inr True \<and>
   \<not> isOriginAllowed (demo_config [''https://app.example''])
        \<lparr>origin_header = None, ip = Some ''203.0.113.7'',
         body = JObj [(''files'', JStr ''a.txt'')]\<rparr> \<and>
   post_tasks demo_runtime (demo_config [''https://app.example''])
     \<lparr>origin_header = None, ip = Some ''203.0.113.7'',
      body = JObj [(''files'', JStr ''a.txt'')]\<rparr> [] =
     (\<lparr>status = 403, json = JObj [(''error'', JStr ''origin not allowed'')]\<rparr>,
      \<lparr>results = [], remote = [], calls = []\<rparr>) \<and>
   post_tasks demo_runtime (demo_config [''https://app.example''])
     \<lparr>origin_header = None, ip = Some ''203.0.113.7'', body = JObj []\<rparr> [] =
     (\<lparr>status = 403, json = JObj [(''error'', JStr ''origin not allowed'')]\<rparr>,
      \<lparr>results = [], remote = [], calls = []\<rparr>)"
proof -
  let ?cfg = "demo_config [''https://app.example'']"
  let ?r1 = "\<lparr>origin_header = None, ip = Some ''203.0.113.7'',
              body = JObj [(''files'', JStr ''a.txt'')]\<rparr>"
  let ?r2 = "\<lparr>origin_header = None, ip = Some ''203.0.113.7'', body = JObj []\<rparr>"
  have c1: "corsOptions_origin ?cfg (origin_header ?r1) = Inr True"
    and c2: "corsOptions_origin ?cfg (origin_header ?r2) = Inr True"
    by (simp_all add: corsOptions_origin_def)
  have h1: "\<not> isOriginAllowed ?cfg ?r1" and h2: "\<not> isOriginAllowed ?cfg ?r2"
    by (simp_all add: isOriginAllowed_def demo_config_def includes_opt_def)
  from h1 origin_check_precedes_files_check[OF c1 h1, where rt=demo_runtime and s="[]"]
    origin_check_precedes_files_check[OF c2 h2, where rt=demo_runtime and s="[]"]
  show ?thesis by (simp add: corsOptions_origin_def)
qed

text \<open>
  C7: a request that passes the origin check and whose body has no \<open>files\<close>, an empty
  \<open>files\<close> array or a \<open>files\<close> that is not an array is answered with 400
  \<open>{error: "files array required"}\<close>, and no call is made. The body is a value whose
  properties can be read, as \<open>bodyParser.json\<close> leaves an object or an array there.
\<close>

theorem files_array_required:
  assumes "isOriginAllowed cfg req"
    and "body req \<noteq> JUndefined" and "body req \<noteq> JNull"
    and "\<forall>fs. read_prop (body req) ''files'' = JArr fs \<longrightarrow> fs = []"
  shows "tasks_handler rt cfg req s =
           (\<lparr>status = 400, json = JObj [(''error'', JStr ''files array required'')]\<rparr>,
            \<lparr>results = [], remote = s, calls = []\<rparr>)"
proof -
  from assms(2,3) have m: "destructure_files (body req) = Inr (read_prop (body req) ''files'')"
    by (rule destructure_files_readable)
  show ?thesis
  proof (cases "read_prop (body req) ''files''")
    case (JArr fs)
    with assms(4) have "fs = []" by simp
    with JArr m assms(1) show ?thesis
      by (simp add: tasks_handler_def error_body_def Let_def)
  qed (use m assms(1) in \<open>simp_all add: tasks_handler_def error_body_def Let_def\<close>)
qed

theorem files_array_required_witness:
  "tasks_handler demo_runtime (demo_config [])
     \<lparr>origin_header = None, ip = None, body = JObj [(''commitMessage'', JStr ''x'')]\<rparr> [] =
     (\<lparr>status = 400, json = JObj [(''error'', JStr ''files array required'')]\<rparr>,
      \<lparr>results = [], remote = [], calls = []\<rparr>) \<and>
   tasks_handler demo_runtime (demo_config []) (demo_request None None []) [] =
     (\<lparr>status = 400, json = JObj [(''error'', JStr ''files array required'')]\<rparr>,
      \<lparr>results = [], remote = [], calls = []\<rparr>) \<and>
   tasks_handler demo_runtime (demo_config [])
     \<lparr>origin_header = None, ip = None, body = JObj [(''files'', JStr ''a.txt'')]\<rparr> [] =
     (\<lparr>status = 400, json = JObj [(''error'', JStr ''files array required'')]\<rparr>,
      \<lparr>results = [], remote = [], calls = []\<rparr>)"
proof -
  have a: "isOriginAllowed (demo_config []) r" for r
    by (simp add: isOriginAllowed_def demo_config_def)
  show ?thesis
    using
      files_array_required[OF a, of "\<lparr>origin_header = None, ip = None, body = JObj [(''commitMessage'', JStr ''x'')]\<rparr>" demo_runtime "[]"]
      files_array_required[OF a, of "demo_request None None []" demo_runtime "[]"]
      files_array_required[OF a, of "\<lparr>origin_header = None, ip = None, body = JObj [(''files'', JStr ''a.txt'')]\<rparr>" demo_runtime "[]"]
    by (simp add: demo_request_def)
qed

section \<open>Claims about one entry of the batch\<close>

text \<open>
  C5: an entry (an object) whose \<open>path\<close> is missing or whose \<open>content\<close> is
  undefined gets the record \<open>{path, status: "skipped", reason: "invalid file object"}\<close>
  appended to the results, \<open>path\<close> being the entry's path or \<open>null\<close>; the iteration
  makes no call and leaves the remote state as it was, and the loop goes on with the
  entries that follow.
\<close>

theorem invalid_entry_is_skipped:
  assumes "f = JObj kvs"
    and "read_prop f ''path'' = JUndefined \<or> read_prop f ''content'' = JUndefined"
  shows "process_file rt cfg cm br f r =
           (None, r\<lparr>results := results r @
              [JObj [(''path'', if truthy (read_prop f ''path'') then read_prop f ''path'' else JNull),
                     (''status'', JStr ''skipped''),
                     (''reason'', JStr ''invalid file object'')]]\<rparr>) \<and>
         calls (snd (process_file rt cfg cm br f r)) = calls r \<and>
         remote (snd (process_file rt cfg cm br f r)) = remote r \<and>
         tasks_loop rt cfg cm br (f # rest) r =
           tasks_loop rt cfg cm br rest
             (r\<lparr>results := results r @
                [JObj [(''path'', if truthy (read_prop f ''path'') then read_prop f ''path'' else JNull),
                       (''status'', JStr ''skipped''),
                       (''reason'', JStr ''invalid file object'')]]\<rparr>)"
proof -
  from assms(2) have inv: "invalid_file_object f"
    by (auto simp: invalid_file_object_def)
  from assms(1) have "f \<noteq> JUndefined" "f \<noteq> JNull" by simp_all
  then have step: "process_file rt cfg cm br f r =
      (None, r\<lparr>results := results r @ [skipped_result (read_prop f ''path'')]\<rparr>)"
    using inv by (rule process_file_skipped)
  then show ?thesis
    by (simp add: skipped_result_def)
qed

theorem invalid_entry_is_skipped_witness:
  "process_file demo_runtime (demo_config []) (JStr ''msg'') (JStr ''main'')
     (JObj [(''path'', JStr ''b.txt'')])
     \<lparr>results = [], remote = [not_found, committed ''c0ffee''], calls = []\<rparr> =
     (None, \<lparr>results = [JObj [(''path'', JStr ''b.txt''), (''status'', JStr ''skipped''),
                               (''reason'', JStr ''invalid file object'')]],
             remote = [not_found, committed ''c0ffee''], calls = []\<rparr>) \<and>
   process_file demo_runtime (demo_config []) (JStr ''msg'') (JStr ''main'')
     (JObj [(''content'', JStr ''hi'')])
     \<lparr>results = [], remote = [not_found, committed ''c0ffee''], calls = []\<rparr> =
     (None, \<lparr>results = [JObj [(''path'', JNull), (''status'', JStr ''skipped''),
                               (''reason'', JStr ''invalid file object'')]],
             remote = [not_found, committed ''c0ffee''], calls = []\<rparr>)"
  using
    invalid_entry_is_skipped[of "JObj [(''path'', JStr ''b.txt'')]" "[(''path'', JStr ''b.txt'')]"
      demo_runtime "demo_config []" "JStr ''msg''" "JStr ''main''"
      "\<lparr>results = [], remote = [not_found, committed ''c0ffee''], calls = []\<rparr>" "[]"]
    invalid_entry_is_skipped[of "JObj [(''content'', JStr ''hi'')]" "[(''content'', JStr ''hi'')]"
      demo_runtime "demo_config []" "JStr ''msg''" "JStr ''main''"
      "\<lparr>results = [], remote = [not_found, committed ''c0ffee''], calls = []\<rparr>" "[]"]
  by simp



text \<open>
  C8: for an entry with a non-empty string \<open>path\<close> and a string \<open>content\<close>, the
  iteration applies the service's write to arguments whose \<open>content\<close> is the base64
  encoding of the bytes that the entry's \<open>content\<close> decodes to: decoded as base64
  when \<open>encoding\<close> is the string \<open>base64\<close>, and as UTF-8 for every other value
  of \<open>encoding\<close>, an absent one included. The state the iteration leaves is the one
  that write returns, and the record it appends is made from that write's outcome.
\<close>

theorem content_is_reencoded_as_base64:
  assumes "read_prop f ''path'' = JStr p" and "p \<noteq> []"
    and "read_prop f ''content'' = JStr c"
    and "getContent rt \<lparr>get_owner = OWNER cfg, get_repo = REPO cfg, get_path = JStr p, get_ref = br\<rparr>
           (remote r) = (outcome, s1)"
  shows "\<exists>pa. put_content pa =
                to_base64 rt (if read_prop f ''encoding'' = JStr ''base64''
                              then from_base64 rt c else from_utf8 rt c) \<and>
              put_path pa = JStr p \<and>
              process_file rt cfg cm br f r =
                (None,
                 \<lparr>results = results r @
                    [case fst (createOrUpdateFileContents rt pa s1) of
                       Inl err \<Rightarrow> error_result (JStr p) err
                     | Inr createRes \<Rightarrow>
                         (case commit_sha createRes of
                            Inl err \<Rightarrow> error_result (JStr p) err
                          | Inr commitSha \<Rightarrow> ok_result (JStr p) commitSha)],
                  remote = snd (createOrUpdateFileContents rt pa s1),
                  calls = calls r @
                    [GetContent \<lparr>get_owner = OWNER cfg, get_repo = REPO cfg,
                                 get_path = JStr p, get_ref = br\<rparr>,
                     CreateOrUpdateFileContents pa]\<rparr>)"
proof -
  from assms(1,2,3) have valid: "\<not> invalid_file_object f"
    by (simp add: invalid_file_object_def)
  have ga: "get_args_of cfg br (JStr p) =
      \<lparr>get_owner = OWNER cfg, get_repo = REPO cfg, get_path = JStr p, get_ref = br\<rparr>"
    by (simp add: get_args_of_def)
  let ?enc = "to_base64 rt (if read_prop f ''encoding'' = JStr ''base64''
                            then from_base64 rt c else from_utf8 rt c)"
  let ?pa = "put_args_of cfg cm br (JStr p) ?enc (fst (read_sha rt cfg br (JStr p) (remote r)))"
  have s1: "snd (read_sha rt cfg br (JStr p) (remote r)) = s1"
    using assms(4) by (simp add: read_sha_eq ga)
  have pf: "process_file rt cfg cm br f r =
          (None, \<lparr>results = results r @ [fst (write_file rt ?pa s1)],
                  remote = snd (write_file rt ?pa s1),
                  calls = calls r @
                    [GetContent \<lparr>get_owner = OWNER cfg, get_repo = REPO cfg,
                                 get_path = JStr p, get_ref = br\<rparr>,
                     CreateOrUpdateFileContents ?pa]\<rparr>)"
    using process_file_valid[OF valid encoded_content_string[OF assms(3)],
            where cfg=cfg and cm=cm and br=br and r=r]
    by (simp add: assms(1) s1 Let_def ga)
  have pp: "put_content ?pa = ?enc" "put_path ?pa = JStr p"
    by (simp_all add: put_args_of_def)
  have w: "fst (write_file rt ?pa s1) =
             (case fst (createOrUpdateFileContents rt ?pa s1) of
                Inl err \<Rightarrow> error_result (JStr p) err
              | Inr createRes \<Rightarrow>
                  (case commit_sha createRes of
                     Inl err \<Rightarrow> error_result (JStr p) err
                   | Inr commitSha \<Rightarrow> ok_result (JStr p) commitSha))"
    and s2: "snd (write_file rt ?pa s1) = snd (createOrUpdateFileContents rt ?pa s1)"
    by (simp_all only: write_file_eq fst_conv snd_conv pp(2))
  show ?thesis
    by (rule exI[of _ ?pa]) (simp only: pp pf w s2 simp_thms)
qed

theorem content_is_reencoded_as_base64_witness:
  "remote (snd (process_file recording_runtime (demo_config []) (JStr ''msg'') (JStr ''main'')
           (base64_file ''c.bin'' ''aGVsbG8='')
           \<lparr>results = [], remote = [], calls = []\<rparr>)) =
     [\<lparr>put_owner = ''acme'', put_repo = ''site'', put_path = JStr ''c.bin'',
       put_message = JStr ''msg'', put_content = ''aGVsbG8='', put_branch = JStr ''main'',
       put_sha = JUndefined\<rparr>] \<and>
   from_base64 recording_runtime ''aGVsbG8='' = [104, 101, 108, 108, 111] \<and>
   remote (snd (process_file recording_runtime (demo_config []) (JStr ''msg'') (JStr ''main'')
           (text_file ''a.txt'' ''hi'')
           \<lparr>results = [], remote = [], calls = []\<rparr>)) =
     [\<lparr>put_owner = ''acme'', put_repo = ''site'', put_path = JStr ''a.txt'',
       put_message = JStr ''msg'', put_content = ''aGk='', put_branch = JStr ''main'',
       put_sha = JUndefined\<rparr>] \<and>
   from_utf8 recording_runtime ''hi'' = [104, 105] \<and>
   remote (snd (process_file recording_runtime (demo_config []) (JStr ''msg'') (JStr ''main'')
           (JObj [(''path'', JStr ''d.txt''), (''content'', JStr ''hi''),
                  (''encoding'', JStr ''BASE64'')])
           \<lparr>results = [], remote = [], calls = []\<rparr>)) =
     [\<lparr>put_owner = ''acme'', put_repo = ''site'', put_path = JStr ''d.txt'',
       put_message = JStr ''msg'', put_content = ''aGk='', put_branch = JStr ''main'',
       put_sha = JUndefined\<rparr>]"
proof -
  let ?r = "\<lparr>results = [], remote = [], calls = []\<rparr> :: put_args list run"
  have p: "read_prop (base64_file ''c.bin'' ''aGVsbG8='') ''path'' = JStr ''c.bin''" "''c.bin'' \<noteq> []"
    and c: "read_prop (base64_file ''c.bin'' ''aGVsbG8='') ''content'' = JStr ''aGVsbG8=''"
    by (simp_all add: base64_file_def)
  have g: "getContent recording_runtime
             \<lparr>get_owner = OWNER (demo_config []), get_repo = REPO (demo_config []),
              get_path = JStr ''c.bin'', get_ref = JStr ''main''\<rparr> (remote ?r) =
           (Inl (JsError ''Not Found''), [])"
    by (simp add: recording_runtime_def)
  have run: ?thesis by code_simp
  from content_is_reencoded_as_base64[OF p c g, where cm="JStr ''msg''"] run
  show ?thesis by -
qed

section \<open>Batches of the documented shape\<close>

text \<open>
  When every entry of \<open>files\<close> has the documented shape, no error leaves the loop: a
  request that passes the origin check with a non-empty such array is answered with 200
  and the body \<open>{ok: true, results}\<close>, where \<open>results\<close> has one record per entry, at
  the entry's position: the skipped record for an entry the guard rejects, and otherwise
  a record with the entry's \<open>path\<close> and the status \<open>ok\<close> or \<open>error\<close>.
\<close>

theorem one_result_per_file:
  assumes "isOriginAllowed cfg req"
    and "read_prop (body req) ''files'' = JArr fs" and "fs \<noteq> []"
    and "\<forall>f\<in>set fs. file_object f"
  shows "\<exists>rs. fst (tasks_handler rt cfg req s) =
                \<lparr>status = 200, json = JObj [(''ok'', JBool True), (''results'', JArr rs)]\<rparr> \<and>
              length rs = length fs \<and>
              (\<forall>i<length fs.
                 if invalid_file_object (fs ! i)
                 then rs ! i = skipped_result (read_prop (fs ! i) ''path'')
                 else read_prop (rs ! i) ''path'' = read_prop (fs ! i) ''path'' \<and>
                      (read_prop (rs ! i) ''status'' = JStr ''ok'' \<or>
                       read_prop (rs ! i) ''status'' = JStr ''error''))"
proof -
  from tasks_handler_file_objects[OF assms, where rt=rt and s=s]
  obtain rs s' cs where
    h: "tasks_handler rt cfg req s =
          (\<lparr>status = 200, json = ok_body rs\<rparr>, \<lparr>results = rs, remote = s', calls = cs\<rparr>)"
    and rs: "list_all2 result_for fs rs"
    by blast
  from rs have len: "length rs = length fs"
    by (simp add: list_all2_lengthD)
  from rs have "\<forall>i<length fs. result_for (fs ! i) (rs ! i)"
    by (simp add: list_all2_conv_all_nth)
  with h len show ?thesis
    by (simp add: ok_body_def result_for_def)
qed

theorem one_result_per_file_witness:
  "isOriginAllowed (demo_config [])
     (demo_request None None [text_file ''a.txt'' ''hi'', JObj [(''path'', JStr ''b.txt'')]]) \<and>
   file_object (text_file ''a.txt'' ''hi'') \<and> file_object (JObj [(''path'', JStr ''b.txt'')]) \<and>
   fst (tasks_handler demo_runtime (demo_config [])
          (demo_request None None [text_file ''a.txt'' ''hi'', JObj [(''path'', JStr ''b.txt'')]])
          [not_found, committed ''c0ffee'']) =
     \<lparr>status = 200,
      json = JObj [(''ok'', JBool True),
                   (''results'',
                    JArr [JObj [(''path'', JStr ''a.txt''), (''status'', JStr ''ok''),
                                (''commitSha'', JStr ''c0ffee'')],
                          JObj [(''path'', JStr ''b.txt''), (''status'', JStr ''skipped''),
                                (''reason'', JStr ''invalid file object'')]])]\<rparr>"
proof -
  let ?fs = "[text_file ''a.txt'' ''hi'', JObj [(''path'', JStr ''b.txt'')]]"
  have a: "isOriginAllowed (demo_config []) (demo_request None None ?fs)"
    by (simp add: isOriginAllowed_def demo_config_def)
  have b: "read_prop (body (demo_request None None ?fs)) ''files'' = JArr ?fs"
    by (simp add: demo_request_def)
  have c: "?fs \<noteq> []" by simp
  have d: "\<forall>f\<in>set ?fs. file_object f"
    by (simp add: file_object_def text_file_def)
  have run: ?thesis by code_simp
  from one_result_per_file[OF a b c d, where rt=demo_runtime and s="[not_found, committed ''c0ffee'']"] run
  show ?thesis by -
qed

text \<open>
  In such a batch a rejected write does not end the loop. Let the loop have reached
  position \<open>n\<close> in the run \<open>r1\<close>, let the entry there pass the guard, and let the
  service reject its write with the error \<open>err\<close>. Then the response is still 200 with
  one record per entry; the record at position \<open>n\<close> is
  \<open>{path, status: "error", message}\<close> with the message of \<open>err\<close>; every later entry
  has its record at its position; and the calls made are, in order, the read and the
  write of every entry that passes the guard.
\<close>

theorem write_failure_does_not_stop_the_batch:
  assumes "isOriginAllowed cfg req"
    and "read_prop (body req) ''files'' = JArr fs"
    and "\<forall>f\<in>set fs. file_object f"
    and "cm = defaulted (read_prop (body req) ''commitMessage'') (JStr ''Agent: generate files'')"
    and "br = defaulted (read_prop (body req) ''branch'') (JStr (BRANCH cfg))"
    and "n < length fs"
    and "tasks_loop rt cfg cm br (take n fs) \<lparr>results = [], remote = s, calls = []\<rparr> = (None, r1)"
    and "\<not> invalid_file_object (fs ! n)"
    and "encoded_content rt (fs ! n) = Inr enc"
    and "read_sha rt cfg br (read_prop (fs ! n) ''path'') (remote r1) = (sha, s1)"
    and "createOrUpdateFileContents rt
           (put_args_of cfg cm br (read_prop (fs ! n) ''path'') enc sha) s1 = (Inl err, s2)"
  shows "\<exists>rs. fst (tasks_handler rt cfg req s) =
                \<lparr>status = 200, json = JObj [(''ok'', JBool True), (''results'', JArr rs)]\<rparr> \<and>
              length rs = length fs \<and>
              rs ! n = JObj [(''path'', read_prop (fs ! n) ''path''),
                             (''status'', JStr ''error''),
                             (''message'', JStr (message err))] \<and>
              (\<forall>i<length fs. n < i \<longrightarrow> result_for (fs ! i) (rs ! i)) \<and>
              map target (calls (snd (tasks_handler rt cfg req s))) = concat (map calls_for fs)"
proof -
  let ?r0 = "\<lparr>results = [], remote = s, calls = []\<rparr> :: 'a run"
  let ?p = "read_prop (fs ! n) ''path''"
  let ?pa = "put_args_of cfg cm br ?p enc sha"
  let ?e = "error_result ?p err"
  from assms(6) have ne: "fs \<noteq> []" by auto
  have split: "fs = take n fs @ [fs ! n] @ drop (Suc n) fs"
    using assms(6) by (simp add: id_take_nth_drop)
  have pre_ok: "\<forall>f\<in>set (take n fs). file_object f"
    using assms(3) by (auto dest: in_set_takeD)
  have post_ok: "\<forall>f\<in>set (drop (Suc n) fs). file_object f"
    using assms(3) by (auto dest: in_set_dropD)
  \<comment> \<open>the entries before position \<open>n\<close> leave \<open>n\<close> records\<close>
  from tasks_loop_file_objects[OF pre_ok, where rt=rt and cfg=cfg and cm=cm and br=br and r="?r0"]
  obtain rs1 where r1: "results r1 = rs1" and "list_all2 result_for (take n fs) rs1"
    using assms(7) by auto
  then have len1: "length rs1 = n"
    using assms(6) by (auto dest: list_all2_lengthD)
  \<comment> \<open>the entry at position \<open>n\<close> leaves the error record\<close>
  have w: "write_file rt ?pa s1 = (?e, s2)"
    using write_file_rejected[OF assms(11)] by simp
  let ?r2 = "\<lparr>results = rs1 @ [?e], remote = s2,
              calls = calls r1 @ [GetContent (get_args_of cfg br ?p), CreateOrUpdateFileContents ?pa]\<rparr>"
  have step: "process_file rt cfg cm br (fs ! n) r1 = (None, ?r2)"
    using process_file_valid[OF assms(8,9), where cfg=cfg and cm=cm and br=br and r=r1]
    by (simp add: assms(10) w r1 Let_def)
  \<comment> \<open>the entries after position \<open>n\<close> are appended behind it\<close>
  from tasks_loop_file_objects[OF post_ok, where rt=rt and cfg=cfg and cm=cm and br=br and r="?r2"]
  obtain rs3 s3 cs3 where
    rest: "tasks_loop rt cfg cm br (drop (Suc n) fs) ?r2 =
             (None, \<lparr>results = (rs1 @ [?e]) @ rs3, remote = s3, calls = calls ?r2 @ cs3\<rparr>)"
    by auto
  have "tasks_loop rt cfg cm br (take n fs @ [fs ! n] @ drop (Suc n) fs) ?r0 =
          (None, \<lparr>results = (rs1 @ [?e]) @ rs3, remote = s3, calls = calls ?r2 @ cs3\<rparr>)"
    by (simp only: tasks_loop_append assms(7) tasks_loop.simps step rest prod.case option.case)
  with split have whole: "results (snd (tasks_loop rt cfg cm br fs ?r0)) = (rs1 @ [?e]) @ rs3"
    by simp
  \<comment> \<open>the handler's answer, from the loop over all entries\<close>
  from tasks_handler_file_objects[OF assms(1,2) ne assms(3), where rt=rt and s=s]
  obtain rs s' cs where
    h: "tasks_handler rt cfg req s =
          (\<lparr>status = 200, json = ok_body rs\<rparr>, \<lparr>results = rs, remote = s', calls = cs\<rparr>)"
    and rs: "list_all2 result_for fs rs"
    and cs: "map target cs = concat (map calls_for fs)"
    by blast
  have "tasks_handler rt cfg req s =
          (case tasks_loop rt cfg cm br fs ?r0 of
             (Some err, r) \<Rightarrow> (internal_error err, r)
           | (None, r) \<Rightarrow> (\<lparr>status = 200, json = ok_body (results r)\<rparr>, r))"
    using tasks_handler_accepted[OF assms(1,2) ne] assms(4,5) by simp
  with h have "results (snd (tasks_loop rt cfg cm br fs ?r0)) = rs"
    by (auto split: prod.splits option.splits)
  with whole have "rs = (rs1 @ [?e]) @ rs3" by simp
  with len1 have nth: "rs ! n = ?e"
    by (simp add: nth_append)
  from rs have len: "length rs = length fs"
    by (simp add: list_all2_lengthD)
  from rs have all: "\<forall>i<length fs. result_for (fs ! i) (rs ! i)"
    by (simp add: list_all2_conv_all_nth)
  from h len nth all cs show ?thesis
    by (simp add: ok_body_def error_result_def)
qed

theorem write_failure_does_not_stop_the_batch_witness:
  "tasks_handler demo_runtime (demo_config [])
     (demo_request None None [text_file ''a.txt'' ''hi'', text_file ''b.txt'' ''yo''])
     [found ''abc123'', rejected ''a.txt does not match abc123'', not_found, committed ''c0ffee''] =
     (\<lparr>status = 200,
       json = JObj [(''ok'', JBool True),
                    (''results'',
                     JArr [JObj [(''path'', JStr ''a.txt''), (''status'', JStr ''error''),
                                 (''message'', JStr ''a.txt does not match abc123'')],
                           JObj [(''path'', JStr ''b.txt''), (''status'', JStr ''ok''),
                                 (''commitSha'', JStr ''c0ffee'')]])]\<rparr>,
      \<lparr>results = [JObj [(''path'', JStr ''a.txt''), (''status'', JStr ''error''),
                         (''message'', JStr ''a.txt does not match abc123'')],
                   JObj [(''path'', JStr ''b.txt''), (''status'', JStr ''ok''),
                         (''commitSha'', JStr ''c0ffee'')]],
       remote = [],
       calls =
         [GetContent \<lparr>get_owner = ''acme'', get_repo = ''site'', get_path = JStr ''a.txt'',
                      get_ref = JStr ''main''\<rparr>,
          CreateOrUpdateFileContents
            \<lparr>put_owner = ''acme'', put_repo = ''site'', put_path = JStr ''a.txt'',
             put_message = JStr ''Agent: generate files'', put_content = ''aGk='',
             put_branch = JStr ''main'', put_sha = JStr ''abc123''\<rparr>,
          GetContent \<lparr>get_owner = ''acme'', get_repo = ''site'', get_path = JStr ''b.txt'',
                      get_ref = JStr ''main''\<rparr>,
          CreateOrUpdateFileContents
            \<lparr>put_owner = ''acme'', put_repo = ''site'', put_path = JStr ''b.txt'',
             put_message = JStr ''Agent: generate files'', put_content = ''eW8='',
             put_branch = JStr ''main'', put_sha = JUndefined\<rparr>]\<rparr>)"
proof -
  let ?fs = "[text_file ''a.txt'' ''hi'', text_file ''b.txt'' ''yo'']"
  let ?req = "demo_request None None ?fs"
  let ?s = "[found ''abc123'', rejected ''a.txt does not match abc123'', not_found, committed ''c0ffee'']"
  have h1: "isOriginAllowed (demo_config []) ?req"
    by (simp add: isOriginAllowed_def demo_config_def)
  have h2: "read_prop (body ?req) ''files'' = JArr ?fs"
    by (simp add: demo_request_def)
  have h3: "\<forall>f\<in>set ?fs. file_object f"
    by (simp add: file_object_def text_file_def)
  have h4: "JStr ''Agent: generate files'' =
              defaulted (read_prop (body ?req) ''commitMessage'') (JStr ''Agent: generate files'')"
    by (simp add: demo_request_def defaulted_def)
  have h5: "JStr ''main'' = defaulted (read_prop (body ?req) ''branch'') (JStr (BRANCH (demo_config [])))"
    by (simp add: demo_request_def defaulted_def demo_config_def)
  have h6: "0 < length ?fs" by simp
  have h7: "tasks_loop demo_runtime (demo_config []) (JStr ''Agent: generate files'') (JStr ''main'')
              (take 0 ?fs) \<lparr>results = [], remote = ?s, calls = []\<rparr> =
            (None, \<lparr>results = [], remote = ?s, calls = []\<rparr>)"
    by simp
  have h8: "\<not> invalid_file_object (?fs ! 0)"
    by (simp add: invalid_file_object_def text_file_def)
  have h9: "encoded_content demo_runtime (?fs ! 0) = Inr ''aGk=''"
    by code_simp
  have h10: "read_sha demo_runtime (demo_config []) (JStr ''main'') (read_prop (?fs ! 0) ''path'')
               (remote \<lparr>results = [], remote = ?s, calls = []\<rparr>) =
             (JStr ''abc123'', [rejected ''a.txt does not match abc123'', not_found, committed ''c0ffee''])"
    by code_simp
  have h11: "createOrUpdateFileContents demo_runtime
               (put_args_of (demo_config []) (JStr ''Agent: generate files'') (JStr ''main'')
                  (read_prop (?fs ! 0) ''path'') ''aGk='' (JStr ''abc123''))
               [rejected ''a.txt does not match abc123'', not_found, committed ''c0ffee''] =
             (Inl (JsError ''a.txt does not match abc123''), [not_found, committed ''c0ffee''])"
    by (simp add: demo_runtime_def scripted_def rejected_def)
  have run: ?thesis by code_simp
  from write_failure_does_not_stop_the_batch[OF h1 h2 h3 h4 h5 h6 h7 h8 h9 h10 h11] run
  show ?thesis by -
qed

section \<open>Batches with an entry whose content is not a string\<close>

text \<open>
  C2 fails on an entry whose \<open>content\<close> is defined and not a string. With
  \<open>content: null\<close> the guard lets the entry through (\<open>typeof null\<close> is
  \<open>"object"\<close>), the read is made, and \<open>Buffer.from(null, 'utf8')\<close> throws outside
  both \<open>try\<close> blocks: the handler answers 500 with the TypeError's message, the entry
  gets no record, and the entry after it is never processed.
\<close>

theorem null_content_aborts_the_batch:
  "tasks_handler rt (demo_config [])
     (demo_request None None
        [JObj [(''path'', JStr ''a.txt''), (''content'', JNull)], text_file ''b.txt'' ''hi'']) s =
     (internal_error (invalid_arg rt JNull),
      \<lparr>results = [],
       remote = snd (getContent rt
                       \<lparr>get_owner = ''acme'', get_repo = ''site'', get_path = JStr ''a.txt'',
                        get_ref = JStr ''main''\<rparr> s),
       calls = [GetContent \<lparr>get_owner = ''acme'', get_repo = ''site'', get_path = JStr ''a.txt'',
                            get_ref = JStr ''main''\<rparr>]\<rparr>)"
proof -
  let ?f = "JObj [(''path'', JStr ''a.txt''), (''content'', JNull)]"
  let ?req = "demo_request None None [?f, text_file ''b.txt'' ''hi'']"
  have a: "isOriginAllowed (demo_config []) ?req"
    by (simp add: isOriginAllowed_def demo_config_def)
  have b: "read_prop (body ?req) ''files'' = JArr [?f, text_file ''b.txt'' ''hi'']"
    by (simp add: demo_request_def)
  have v: "\<not> invalid_file_object ?f"
    by (simp add: invalid_file_object_def)
  have e: "encoded_content rt ?f = Inl (invalid_arg rt JNull)"
    by (simp add: encoded_content_def)
  have cm: "defaulted (read_prop (body ?req) ''commitMessage'') (JStr ''Agent: generate files'') =
              JStr ''Agent: generate files''"
    and br: "defaulted (read_prop (body ?req) ''branch'') (JStr (BRANCH (demo_config []))) =
              JStr ''main''"
    by (simp_all add: demo_request_def demo_config_def defaulted_def)
  have ga: "get_args_of (demo_config []) (JStr ''main'') (JStr ''a.txt'') =
              \<lparr>get_owner = ''acme'', get_repo = ''site'', get_path = JStr ''a.txt'',
               get_ref = JStr ''main''\<rparr>"
    by (simp add: get_args_of_def demo_config_def)
  have "tasks_loop rt (demo_config []) (JStr ''Agent: generate files'') (JStr ''main'')
          [?f, text_file ''b.txt'' ''hi''] \<lparr>results = [], remote = s, calls = []\<rparr> =
        (Some (invalid_arg rt JNull),
         \<lparr>results = [],
          remote = snd (getContent rt
                       \<lparr>get_owner = ''acme'', get_repo = ''site'', get_path = JStr ''a.txt'',
                        get_ref = JStr ''main''\<rparr> s),
          calls = [GetContent \<lparr>get_owner = ''acme'', get_repo = ''site'', get_path = JStr ''a.txt'',
                            get_ref = JStr ''main''\<rparr>]\<rparr>)"
    by (simp add: process_file_undecodable[OF v e] read_sha_eq ga)
  then show ?thesis
    by (simp add: tasks_handler_accepted[OF a b] cm br)
qed

theorem null_content_aborts_the_batch_witness:
  "status (fst (tasks_handler demo_runtime (demo_config [])
     (demo_request None None
        [JObj [(''path'', JStr ''a.txt''), (''content'', JNull)], text_file ''b.txt'' ''hi''])
     [not_found, committed ''c0ffee'', not_found, committed ''d00d''])) = 500 \<and>
   map target (calls (snd (tasks_handler demo_runtime (demo_config [])
     (demo_request None None
        [JObj [(''path'', JStr ''a.txt''), (''content'', JNull)], text_file ''b.txt'' ''hi''])
     [not_found, committed ''c0ffee'', not_found, committed ''d00d'']))) = [(Read, JStr ''a.txt'')]"
  by (simp add: null_content_aborts_the_batch internal_error_def)


text \<open>
  C1 fails on the same line. The request passes the cors middleware and the origin check
  and \<open>files\<close> is a non-empty array of two entries; the second has the number 42 as
  \<open>content\<close>. Whatever the service answers, the first entry is read and written, the
  second is read, \<open>Buffer.from(42, 'utf8')\<close> throws, and the response is 500 with the
  body \<open>{error}\<close>: it has no \<open>results\<close>, not one record per entry.
\<close>

theorem number_content_leaves_no_results:
  "\<exists>r. post_tasks rt (demo_config [])
          (demo_request None None
             [text_file ''a.txt'' ''hi'', JObj [(''path'', JStr ''b.txt''), (''content'', JNum 42)]]) s =
          (\<lparr>status = 500,
            json = JObj [(''error'',
                          JStr (if message (invalid_arg rt (JNum 42)) = [] then ''internal error''
                                else message (invalid_arg rt (JNum 42))))]\<rparr>, r) \<and>
        map target (calls r) = [(Read, JStr ''a.txt''), (Write, JStr ''a.txt''), (Read, JStr ''b.txt'')]"
proof -
  let ?a = "text_file ''a.txt'' ''hi''"
  let ?b = "JObj [(''path'', JStr ''b.txt''), (''content'', JNum 42)]"
  let ?req = "demo_request None None [?a, ?b]"
  let ?cfg = "demo_config []"
  let ?cm = "JStr ''Agent: generate files''"
  let ?br = "JStr ''main''"
  let ?r0 = "\<lparr>results = [], remote = s, calls = []\<rparr>"
  have cors: "corsOptions_origin ?cfg (origin_header ?req) = Inr True"
    by (simp add: corsOptions_origin_def demo_request_def)
  have allowed: "isOriginAllowed ?cfg ?req"
    by (simp add: isOriginAllowed_def demo_config_def)
  have files: "read_prop (body ?req) ''files'' = JArr [?a, ?b]"
    by (simp add: demo_request_def)
  have cm: "defaulted (read_prop (body ?req) ''commitMessage'') (JStr ''Agent: generate files'') = ?cm"
    and br: "defaulted (read_prop (body ?req) ''branch'') (JStr (BRANCH ?cfg)) = ?br"
    by (simp_all add: demo_request_def demo_config_def defaulted_def)
  have "file_object ?a"
    by (simp add: file_object_def text_file_def)
  from process_file_file_object[OF this, where rt=rt and cfg="?cfg" and cm="?cm" and br="?br" and r="?r0"]
  obtain res s1 cs where
    first: "process_file rt ?cfg ?cm ?br ?a ?r0 = (None, \<lparr>results = [res], remote = s1, calls = cs\<rparr>)"
    and cs: "map target cs = calls_for ?a"
    by auto
  have csa: "calls_for ?a = [(Read, JStr ''a.txt''), (Write, JStr ''a.txt'')]"
    by (simp add: calls_for_def invalid_file_object_def text_file_def)
  have v: "\<not> invalid_file_object ?b"
    by (simp add: invalid_file_object_def)
  have e: "encoded_content rt ?b = Inl (invalid_arg rt (JNum 42))"
    by (simp add: encoded_content_def)
  let ?r1 = "\<lparr>results = [res], remote = s1, calls = cs\<rparr>"
  let ?r2 = "?r1\<lparr>remote := snd (read_sha rt ?cfg ?br (read_prop ?b ''path'') (remote ?r1)),
                  calls := calls ?r1 @ [GetContent (get_args_of ?cfg ?br (read_prop ?b ''path''))]\<rparr>"
  have loop: "tasks_loop rt ?cfg ?cm ?br [?a, ?b] ?r0 = (Some (invalid_arg rt (JNum 42)), ?r2)"
    by (simp only: tasks_loop.simps first process_file_undecodable[OF v e] prod.case option.case)
  have "tasks_handler rt ?cfg ?req s = (internal_error (invalid_arg rt (JNum 42)), ?r2)"
    using tasks_handler_accepted[OF allowed files, where rt=rt and s=s]
    by (simp only: cm br loop prod.case option.case list.distinct not_False_eq_True simp_thms)
  then have "post_tasks rt ?cfg ?req s = (internal_error (invalid_arg rt (JNum 42)), ?r2)"
    by (simp only: post_tasks_passed[OF cors])
  moreover have "map target (calls ?r2) =
      [(Read, JStr ''a.txt''), (Write, JStr ''a.txt''), (Read, JStr ''b.txt'')]"
    using cs csa by simp
  ultimately show ?thesis
    by (simp add: internal_error_def error_body_def)
qed

theorem number_content_leaves_no_results_witness:
  "post_tasks demo_runtime (demo_config [])
     (demo_request None None
        [text_file ''a.txt'' ''hi'', JObj [(''path'', JStr ''b.txt''), (''content'', JNum 42)]])
     [not_found, committed ''c0ffee'', not_found, committed ''d00d''] =
     (\<lparr>status = 500,
       json = JObj [(''error'', JStr ''The first argument must be of type string'')]\<rparr>,
      \<lparr>results = [JObj [(''path'', JStr ''a.txt''), (''status'', JStr ''ok''),
                         (''commitSha'', JStr ''c0ffee'')]],
       remote = [committed ''d00d''],
       calls =
         [GetContent \<lparr>get_owner = ''acme'', get_repo = ''site'', get_path = JStr ''a.txt'',
                      get_ref = JStr ''main''\<rparr>,
          CreateOrUpdateFileContents
            \<lparr>put_owner = ''acme'', put_repo = ''site'', put_path = JStr ''a.txt'',
             put_message = JStr ''Agent: generate files'', put_content = ''aGk='',
             put_branch = JStr ''main'', put_sha = JUndefined\<rparr>,
          GetContent \<lparr>get_owner = ''acme'', get_repo = ''site'', get_path = JStr ''b.txt'',
                      get_ref = JStr ''main''\<rparr>]\<rparr>)"
proof -
  have run: ?thesis by code_simp
  from number_content_leaves_no_results[where rt=demo_runtime
         and s="[not_found, committed ''c0ffee'', not_found, committed ''d00d'']"] run
  show ?thesis by -
qed

text \<open>
  C9 fails on the same line. The request passes the cors middleware and the origin check;
  the write of the first entry is rejected, the second entry has \<open>content: null\<close>, the
  third is a valid entry. The error record of the first entry is pushed, the second
  entry is read, \<open>Buffer.from(null, 'utf8')\<close> throws, and the response is 500: the
  record of the rejected write is not reported and the third entry is never processed.
\<close>

theorem rejected_write_then_null_content:
  "post_tasks demo_runtime (demo_config [])
     (demo_request None None
        [text_file ''a.txt'' ''hi'', JObj [(''path'', JStr ''b.txt''), (''content'', JNull)],
         text_file ''c.txt'' ''yo''])
     [found ''abc123'', rejected ''a.txt does not match abc123'', not_found, committed ''c0ffee'',
      not_found, committed ''d00d''] =
     (\<lparr>status = 500,
       json = JObj [(''error'', JStr ''The first argument must be of type string'')]\<rparr>,
      \<lparr>results = [JObj [(''path'', JStr ''a.txt''), (''status'', JStr ''error''),
                         (''message'', JStr ''a.txt does not match abc123'')]],
       remote = [committed ''c0ffee'', not_found, committed ''d00d''],
       calls =
         [GetContent \<lparr>get_owner = ''acme'', get_repo = ''site'', get_path = JStr ''a.txt'',
                      get_ref = JStr ''main''\<rparr>,
          CreateOrUpdateFileContents
            \<lparr>put_owner = ''acme'', put_repo = ''site'', put_path = JStr ''a.txt'',
             put_message = JStr ''Agent: generate files'', put_content = ''aGk='',
             put_branch = JStr ''main'', put_sha = JStr ''abc123''\<rparr>,
          GetContent \<lparr>get_owner = ''acme'', get_repo = ''site'', get_path = JStr ''b.txt'',
                      get_ref = JStr ''main''\<rparr>]\<rparr>)"
  by code_simp

theorem rejected_write_then_null_content_witness:
  "status (fst (post_tasks demo_runtime (demo_config [])
     (demo_request None None
        [text_file ''a.txt'' ''hi'', JObj [(''path'', JStr ''b.txt''), (''content'', JNull)],
         text_file ''c.txt'' ''yo''])
     [found ''abc123'', rejected ''a.txt does not match abc123'', not_found, committed ''c0ffee'',
      not_found, committed ''d00d''])) = 500 \<and>
   read_prop (json (fst (post_tasks demo_runtime (demo_config [])
     (demo_request None None
        [text_file ''a.txt'' ''hi'', JObj [(''path'', JStr ''b.txt''), (''content'', JNull)],
         text_file ''c.txt'' ''yo''])
     [found ''abc123'', rejected ''a.txt does not match abc123'', not_found, committed ''c0ffee'',
      not_found, committed ''d00d'']))) ''results'' = JUndefined \<and>
   map target (calls (snd (post_tasks demo_runtime (demo_config [])
     (demo_request None None
        [text_file ''a.txt'' ''hi'', JObj [(''path'', JStr ''b.txt''), (''content'', JNull)],
         text_file ''c.txt'' ''yo''])
     [found ''abc123'', rejected ''a.txt does not match abc123'', not_found, committed ''c0ffee'',
      not_found, committed ''d00d'']))) =
     [(Read, JStr ''a.txt''), (Write, JStr ''a.txt''), (Read, JStr ''b.txt'')]"
  by (simp add: rejected_write_then_null_content)

end
